theory Spec2Isabelle
  imports Complex_Main "HOL-Library.Sublist"
begin

section \<open>JSON values and the Python operations the bot applies to them\<close>

text \<open>
  The values \<^verbatim>\<open>json.loads\<close> produces and \<^verbatim>\<open>json.dump\<close> writes. A Python dict keeps
  its keys in insertion order and has no duplicate key, so an object is an association
  list; \<open>dict_set\<close> below is the only operation that adds a key. A float leaf is carried
  as the rational it denotes: the code only passes floats through and tests them for
  truth (NaN and the infinities are left out).
\<close>

datatype json =
    JNull
  | JBool bool
  | JInt int
  | JFloat rat
  | JStr string
  | JList "json list"
  | JDict "(string \<times> json) list"

datatype py_error = TypeError | AttributeError | KeyError | ValueError | JSONDecodeError

text \<open>Sequencing of computations that may raise: the first exception wins.\<close>

definition bindE :: "py_error + 'a \<Rightarrow> ('a \<Rightarrow> py_error + 'b) \<Rightarrow> py_error + 'b" where
  "bindE m f = (case m of Inl e \<Rightarrow> Inl e | Inr x \<Rightarrow> f x)"

fun mapE :: "('a \<Rightarrow> py_error + 'b) \<Rightarrow> 'a list \<Rightarrow> py_error + 'b list" where
  "mapE f [] = Inr []"
| "mapE f (x # xs) = bindE (f x) (\<lambda>y. bindE (mapE f xs) (\<lambda>ys. Inr (y # ys)))"

subsection \<open>Strings\<close>

text \<open>
  A string is the list of its characters, each a code point below 256. Everything the
  code itself looks for in one (the two tokens, \<^verbatim>\<open>#\<close>) is ASCII.
\<close>

text \<open>\<^verbatim>\<open>t in s\<close> for two strings: \<open>t\<close> occurs in \<open>s\<close> as a contiguous substring.\<close>

fun has_sub :: "string \<Rightarrow> string \<Rightarrow> bool" where
  "has_sub t [] = (t = [])"
| "has_sub t (c # cs) = (prefix t (c # cs) \<or> has_sub t cs)"

text \<open>
  \<^verbatim>\<open>s.replace(old, new)\<close>: the occurrences of \<open>old\<close> are found from the left and do not
  overlap. \<open>replace_from\<close> is the scan for a non-empty \<open>old\<close>; with an empty \<open>old\<close> Python
  puts \<open>new\<close> in front of every character and at the end.
\<close>

fun replace_from :: "string \<Rightarrow> string \<Rightarrow> string \<Rightarrow> string" where
  "replace_from old new [] = []"
| "replace_from old new (c # cs) =
     (if prefix old (c # cs) then new @ replace_from old new (drop (length old - 1) cs)
      else c # replace_from old new cs)"

definition str_replace :: "string \<Rightarrow> string \<Rightarrow> string \<Rightarrow> string" where
  "str_replace old new s =
     (if old = [] then new @ concat (map (\<lambda>c. c # new) s) else replace_from old new s)"

text \<open>\<^verbatim>\<open>s.strip(chars)\<close>: every leading and every trailing character that is in \<open>chars\<close> goes.\<close>

definition py_strip :: "string \<Rightarrow> string \<Rightarrow> string" where
  "py_strip chars s =
     rev (dropWhile (\<lambda>c. c \<in> set chars) (rev (dropWhile (\<lambda>c. c \<in> set chars) s)))"

text \<open>\<^verbatim>\<open>str(n)\<close> for an integer, and for the \<^verbatim>\<open>None\<close> an interaction outside a guild carries.\<close>

function dec_digits :: "nat \<Rightarrow> string" where
  "dec_digits n =
     (if n < 10 then [''0123456789'' ! n]
      else dec_digits (n div 10) @ [''0123456789'' ! (n mod 10)])"
  by pat_completeness auto
termination
  by (relation "measure (\<lambda>n. n)") auto

definition py_str_int :: "int \<Rightarrow> string" where
  "py_str_int i = (if i < 0 then CHR ''-'' # dec_digits (nat (- i)) else dec_digits (nat i))"

definition py_str_opt_int :: "int option \<Rightarrow> string" where
  "py_str_opt_int x = (case x of None \<Rightarrow> ''None'' | Some i \<Rightarrow> py_str_int i)"

text \<open>
  \<^verbatim>\<open>int(s, 16)\<close>: white space around the literal, one optional sign, an optional \<^verbatim>\<open>0x\<close>
  or \<^verbatim>\<open>0X\<close> (which one underscore may follow), then hexadecimal digits with single
  underscores between them. Anything else raises \<^verbatim>\<open>ValueError\<close>. The white space is
  the six ASCII characters tab to carriage return and blank, and the non-ASCII white
  space, which Python turns into blanks first: below code point 256 that is U+0085 and
  U+00A0. No character from 128 to 255 is a decimal digit.
\<close>

definition is_py_space :: "char \<Rightarrow> bool" where
  "is_py_space c =
     (c \<in> set [CHR '' '', CHR 0x09, CHR 0x0A, CHR 0x0B, CHR 0x0C, CHR 0x0D, CHR 0x85, CHR 0xA0])"

definition hex_val :: "char \<Rightarrow> nat option" where
  "hex_val c =
     (let n = (of_char c :: nat) in
      if 48 \<le> n \<and> n \<le> 57 then Some (n - 48)
      else if 97 \<le> n \<and> n \<le> 102 then Some (n - 87)
      else if 65 \<le> n \<and> n \<le> 70 then Some (n - 55)
      else None)"

fun hex_digits :: "nat \<Rightarrow> string \<Rightarrow> nat option" where
  "hex_digits acc [] = Some acc"
| "hex_digits acc (c # cs) =
     (if c = CHR ''_'' then
        (case cs of
           [] \<Rightarrow> None
         | d # ds \<Rightarrow> (case hex_val d of None \<Rightarrow> None | Some v \<Rightarrow> hex_digits (16 * acc + v) ds))
      else (case hex_val c of None \<Rightarrow> None | Some v \<Rightarrow> hex_digits (16 * acc + v) cs))"

definition hex_number :: "string \<Rightarrow> nat option" where
  "hex_number s =
     (case s of
        [] \<Rightarrow> None
      | c # cs \<Rightarrow> (case hex_val c of None \<Rightarrow> None | Some v \<Rightarrow> hex_digits v cs))"

definition split_sign :: "string \<Rightarrow> bool \<times> string" where
  "split_sign s =
     (case s of
        [] \<Rightarrow> (False, [])
      | c # cs \<Rightarrow> if c = CHR ''+'' then (False, cs) else if c = CHR ''-'' then (True, cs) else (False, s))"

definition skip_0x :: "string \<Rightarrow> string" where
  "skip_0x s =
     (case s of
        c # x # rest \<Rightarrow>
          if c = CHR ''0'' \<and> (x = CHR ''x'' \<or> x = CHR ''X'')
          then (case rest of u # r \<Rightarrow> if u = CHR ''_'' then r else rest | [] \<Rightarrow> rest)
          else s
      | _ \<Rightarrow> s)"

definition py_int16 :: "string \<Rightarrow> py_error + int" where
  "py_int16 s =
     (let (neg, u) = split_sign (rev (dropWhile is_py_space (rev (dropWhile is_py_space s))))
      in case hex_number (skip_0x u) of
           None \<Rightarrow> Inl ValueError
         | Some n \<Rightarrow> Inr (if neg then - int n else int n))"

subsection \<open>Dictionaries and duck-typed access\<close>

text \<open>\<^verbatim>\<open>d[k] = v\<close> on a dict: an existing key keeps its place, a new key goes to the end.\<close>

fun dict_set :: "string \<Rightarrow> json \<Rightarrow> (string \<times> json) list \<Rightarrow> (string \<times> json) list" where
  "dict_set k v [] = [(k, v)]"
| "dict_set k v ((k', v') # kvs) =
     (if k' = k then (k, v) # kvs else (k', v') # dict_set k v kvs)"

text \<open>\<^verbatim>\<open>d.update(other)\<close>: the items of \<open>other\<close> are stored in their order.\<close>

fun dict_update :: "(string \<times> json) list \<Rightarrow> (string \<times> json) list \<Rightarrow> (string \<times> json) list" where
  "dict_update [] kvs = kvs"
| "dict_update ((k, v) # other) kvs = dict_update other (dict_set k v kvs)"

text \<open>
  The operations below are applied by the code to whatever \<^verbatim>\<open>json.loads\<close> returned, so
  each one says what Python does on every kind of value: \<^verbatim>\<open>k in x\<close> is key membership
  on a dict, element membership on a list, the substring test on a string and a
  \<^verbatim>\<open>TypeError\<close> elsewhere; subscripting with a string key works on a dict only;
  \<^verbatim>\<open>.get\<close> exists on a dict only.
\<close>

fun py_in :: "string \<Rightarrow> json \<Rightarrow> py_error + bool" where
  "py_in k (JDict kvs) = Inr (k \<in> set (map fst kvs))"
| "py_in k (JList xs) = Inr (JStr k \<in> set xs)"
| "py_in k (JStr s) = Inr (has_sub k s)"
| "py_in k x = Inl TypeError"

fun py_getitem :: "string \<Rightarrow> json \<Rightarrow> py_error + json" where
  "py_getitem k (JDict kvs) = (case map_of kvs k of None \<Rightarrow> Inl KeyError | Some v \<Rightarrow> Inr v)"
| "py_getitem k x = Inl TypeError"

text \<open>\<^verbatim>\<open>d.get(k)\<close> on a dict: the value, or \<^verbatim>\<open>None\<close> for a missing key.\<close>

definition dict_get :: "(string \<times> json) list \<Rightarrow> string \<Rightarrow> json" where
  "dict_get kvs k = (case map_of kvs k of None \<Rightarrow> JNull | Some v \<Rightarrow> v)"

fun py_get :: "string \<Rightarrow> json \<Rightarrow> py_error + json" where
  "py_get k (JDict kvs) = Inr (dict_get kvs k)"
| "py_get k x = Inl AttributeError"

fun py_setitem :: "string \<Rightarrow> json \<Rightarrow> json \<Rightarrow> py_error + json" where
  "py_setitem k v (JDict kvs) = Inr (JDict (dict_set k v kvs))"
| "py_setitem k v x = Inl TypeError"

text \<open>Iteration: the items of a list, the keys of a dict, the characters of a string.\<close>

fun py_iter :: "json \<Rightarrow> py_error + json list" where
  "py_iter (JList xs) = Inr xs"
| "py_iter (JDict kvs) = Inr (map (\<lambda>(k, v). JStr k) kvs)"
| "py_iter (JStr s) = Inr (map (\<lambda>c. JStr [c]) s)"
| "py_iter x = Inl TypeError"

text \<open>Truth value of a JSON value, as \<^verbatim>\<open>if x\<close> and \<^verbatim>\<open>not x\<close> take it.\<close>

fun truthy :: "json \<Rightarrow> bool" where
  "truthy JNull = False"
| "truthy (JBool b) = b"
| "truthy (JInt i) = (i \<noteq> 0)"
| "truthy (JFloat r) = (r \<noteq> 0)"
| "truthy (JStr s) = (s \<noteq> [])"
| "truthy (JList xs) = (xs \<noteq> [])"
| "truthy (JDict kvs) = (kvs \<noteq> [])"

text \<open>\<^verbatim>\<open>any(k in data for k in keys)\<close>, which stops at the first key found.\<close>

fun any_in :: "string list \<Rightarrow> json \<Rightarrow> py_error + bool" where
  "any_in [] data = Inr False"
| "any_in (k # ks) data = bindE (py_in k data) (\<lambda>b. if b then Inr True else any_in ks data)"

section \<open>The bot\<close>

subsection \<open>The placeholder expander\<close>

record guild =
  guild_ident :: int
  get_role :: "json \<Rightarrow> int option"
  get_channel :: "json \<Rightarrow> int option"
  add_roles_allowed :: "int \<Rightarrow> bool"

record member =
  mention :: string
  name :: string
  guild :: guild

text \<open>
  \<^verbatim>\<open>replace_placeholders(obj, member)\<close>: the \<^verbatim>\<open>isinstance\<close> chain str, list, dict, and
  every other value returned as it is. The two replacements of a string run one after
  the other, the second on the result of the first.
\<close>

fun replace_placeholders :: "json \<Rightarrow> member \<Rightarrow> json" where
  "replace_placeholders (JStr s) m =
     JStr (str_replace ''{username}'' (name m) (str_replace ''{user}'' (mention m) s))"
| "replace_placeholders (JList xs) m = JList (map (\<lambda>item. replace_placeholders item m) xs)"
| "replace_placeholders (JDict kvs) m =
     JDict (map (\<lambda>(k, v). (k, replace_placeholders v m)) kvs)"
| "replace_placeholders obj m = obj"

subsection \<open>The config store and the theme merger\<close>

text \<open>
  The state of \<^verbatim>\<open>config.json\<close>: \<open>None\<close> while the file does not exist, else the JSON
  document it holds. \<^verbatim>\<open>save_config\<close> overwrites it. In the code \<^verbatim>\<open>json.dump\<close> raises
  \<^verbatim>\<open>ValueError\<close> on an integer of more than 4300 decimal digits, with the file already
  opened for writing; \<open>save_config\<close> has no such case, so a theorem about saving an
  integer the command computed bounds it by \<open>dumps_int\<close> below.
\<close>

definition load_config :: "json option \<Rightarrow> json" where
  "load_config file = (case file of None \<Rightarrow> JDict [] | Some v \<Rightarrow> v)"

definition save_config :: "json \<Rightarrow> json option" where
  "save_config data = Some data"

definition set_color :: "json \<Rightarrow> json \<Rightarrow> py_error + json" where
  "set_color primary_color embed_dict =
     bindE (py_in ''color'' embed_dict) (\<lambda>has_color.
       if \<not> has_color then py_setitem ''color'' primary_color embed_dict
       else Inr embed_dict)"

definition apply_theme :: "json option \<Rightarrow> json \<Rightarrow> string \<Rightarrow> py_error + json" where
  "apply_theme file data gid =
     (let config = load_config file in
      bindE (py_in gid config) (\<lambda>has_guild.
      bindE (if \<not> has_guild then Inr True
             else bindE (py_getitem gid config) (\<lambda>settings.
                  bindE (py_in ''theme'' settings) (\<lambda>has_theme. Inr (\<not> has_theme)))) (\<lambda>no_theme.
      if no_theme then Inr data
      else
        bindE (py_getitem gid config) (\<lambda>settings.
        bindE (py_getitem ''theme'' settings) (\<lambda>theme.
        bindE (py_get ''primary'' theme) (\<lambda>primary_color.
        if \<not> truthy primary_color then Inr data
        else
          bindE (py_in ''embeds'' data) (\<lambda>has_embeds.
          if has_embeds then
            bindE (py_getitem ''embeds'' data) (\<lambda>embeds.
            bindE (py_iter embeds) (\<lambda>es.
            bindE (mapE (set_color primary_color) es) (\<lambda>es'.
            py_setitem ''embeds'' (JList es') data)))
          else
            bindE (any_in [''title'', ''description'', ''fields''] data) (\<lambda>embed_like.
            if embed_like then set_color primary_color data else Inr data))))))))"

subsection \<open>The platform, as the handlers see it\<close>

text \<open>
  The handlers talk to the chat platform through calls whose results the model records
  in order: a reply to the invoking user (with its \<^verbatim>\<open>ephemeral\<close> flag), a message sent to
  a channel (content, then the embeds), a role given to the joining member, an error
  written to the log. The platform calls themselves return normally, except
  \<^verbatim>\<open>member.add_roles\<close>, which raises \<^verbatim>\<open>Forbidden\<close> where \<open>add_roles_allowed\<close> is false.
\<close>

datatype reply =
    Text string
  | ErrorText string py_error
  | Embed string string int "(string \<times> string) list"

datatype event =
    SendMessage reply bool
  | ChannelSend int json "json list"
  | AddRoles int
  | LogError string

record world =
  config_file :: "json option"
  trace :: "event list"

definition emit :: "event \<Rightarrow> world \<Rightarrow> world" where
  "emit e w = w\<lparr>trace := trace w @ [e]\<rparr>"

text \<open>
  Two library functions are parameters: \<^verbatim>\<open>json.loads\<close>, which returns the parsed value or
  raises \<^verbatim>\<open>JSONDecodeError\<close> (\<open>None\<close>), and \<^verbatim>\<open>discord.Embed.from_dict\<close>.
\<close>

record library =
  json_loads :: "string \<Rightarrow> json option"
  from_dict :: "json \<Rightarrow> py_error + json"

record interaction =
  guild_id :: "int option"
  channel :: int

record text_channel =
  channel_ident :: int
  channel_mention :: string

text \<open>
  The content and the embeds of the message to send, as \<^verbatim>\<open>on_member_join\<close> (lines 108 to
  113) and \<^verbatim>\<open>embed_command\<close> (lines 168 to 173) both compute them.
\<close>

definition message_parts :: "library \<Rightarrow> json \<Rightarrow> py_error + (json \<times> json list)" where
  "message_parts lib data =
     bindE (py_get ''content'' data) (\<lambda>content.
     bindE (py_in ''embeds'' data) (\<lambda>has_embeds.
     bindE (if has_embeds then
              bindE (py_getitem ''embeds'' data) (\<lambda>embeds.
              bindE (py_iter embeds) (\<lambda>es. mapE (from_dict lib) es))
            else
              bindE (any_in [''title'', ''description'', ''fields'', ''color''] data) (\<lambda>embed_like.
              if embed_like then bindE (from_dict lib data) (\<lambda>e. Inr [e]) else Inr []))
       (\<lambda>embeds. Inr (content, embeds))))"

subsection \<open>The member-join event\<close>

text \<open>
  \<open>Inl\<close> is an exception that leaves the handler; everything raised inside the
  \<^verbatim>\<open>try\<close> around the welcome message is logged instead.
\<close>

definition on_member_join :: "library \<Rightarrow> member \<Rightarrow> world \<Rightarrow> py_error + world" where
  "on_member_join lib member w =
     (let config = load_config (config_file w);
          gid = py_str_int (guild_ident (guild member)) in
      bindE (py_in gid config) (\<lambda>has_guild.
      if \<not> has_guild then Inr w
      else
        bindE (py_getitem gid config) (\<lambda>settings.
        bindE (py_get ''role_id'' settings) (\<lambda>rid.
        bindE (if truthy rid then
                 bindE (py_getitem ''role_id'' settings) (\<lambda>rid'.
                 case get_role (guild member) rid' of
                   None \<Rightarrow> Inr w
                 | Some role \<Rightarrow>
                     if add_roles_allowed (guild member) role then Inr (emit (AddRoles role) w)
                     else Inr (emit (LogError ''Cannot assign welcome role'')
                                 (emit (AddRoles role) w)))
               else Inr w) (\<lambda>w1.
        bindE (py_get ''channel_id'' settings) (\<lambda>cid.
        bindE (if truthy cid then bindE (py_get ''embed_data'' settings) (\<lambda>d. Inr (truthy d))
               else Inr False) (\<lambda>configured.
        if \<not> configured then Inr w1
        else
          bindE (py_getitem ''channel_id'' settings) (\<lambda>cid'.
          case get_channel (guild member) cid' of
            None \<Rightarrow> Inr w1
          | Some ch \<Rightarrow>
              (case bindE (py_getitem ''embed_data'' settings) (\<lambda>raw_data.
                    bindE (apply_theme (config_file w1) raw_data gid) (\<lambda>data.
                    message_parts lib (replace_placeholders data member))) of
                 Inl e \<Rightarrow> Inr (emit (LogError ''Failed to send welcome message'') w1)
               | Inr (content, embeds) \<Rightarrow>
                   Inr (emit (ChannelSend ch content (take 10 embeds)) w1))))))))))"

subsection \<open>The theme command\<close>

text \<open>\<^verbatim>\<open>except ValueError\<close> also catches its subclass \<^verbatim>\<open>JSONDecodeError\<close>.\<close>

definition is_value_error :: "py_error \<Rightarrow> bool" where
  "is_value_error e = (e = ValueError \<or> e = JSONDecodeError)"

text \<open>
  Line 128, \<^verbatim>\<open>int(secondary.strip('#'), 16) if secondary else None\<close>: a secondary that
  was not given, or is the empty string, is \<^verbatim>\<open>None\<close>.
\<close>

definition secondary_int :: "string option \<Rightarrow> py_error + int option" where
  "secondary_int secondary =
     (case secondary of
        None \<Rightarrow> Inr None
      | Some s \<Rightarrow>
          if s = [] then Inr None
          else bindE (py_int16 (py_strip ''#'' s)) (\<lambda>i. Inr (Some i)))"

definition theme_command :: "interaction \<Rightarrow> string \<Rightarrow> string option \<Rightarrow> world \<Rightarrow> world" where
  "theme_command interaction primary secondary w =
     (case
        bindE (py_int16 (py_strip ''#'' primary)) (\<lambda>p_int.
        bindE (secondary_int secondary) (\<lambda>s_int.
        let config = load_config (config_file w);
            gid = py_str_opt_int (guild_id interaction) in
        bindE (py_in gid config) (\<lambda>has_guild.
        bindE (if \<not> has_guild then py_setitem gid (JDict []) config else Inr config) (\<lambda>config1.
        bindE (py_getitem gid config1) (\<lambda>settings.
        bindE (py_setitem ''theme''
                 (JDict [(''primary'', JInt p_int),
                         (''secondary'', (case s_int of None \<Rightarrow> JNull | Some i \<Rightarrow> JInt i))])
                 settings) (\<lambda>settings1.
        bindE (py_setitem gid settings1 config1) (\<lambda>config2.
        Inr (p_int, s_int, config2))))))))
      of
        Inl e \<Rightarrow>
          if is_value_error e then
            emit (SendMessage (Text ''Invalid hex color format. Use format like #FF5733.'') True) w
          else
            emit (SendMessage (Text ''Failed to save theme.'') True) (emit (LogError ''Theme error'') w)
      | Inr (p_int, s_int, config2) \<Rightarrow>
          emit (SendMessage
                  (Embed ''Theme Updated'' (''Primary color set to '' @ primary) p_int
                     (case (s_int, secondary) of
                        (Some i, Some s) \<Rightarrow> if i \<noteq> 0 then [(''Secondary'', s)] else []
                      | _ \<Rightarrow> []))
                  False)
            (w\<lparr>config_file := save_config config2\<rparr>))"

subsection \<open>The embed command\<close>

definition embed_command :: "library \<Rightarrow> interaction \<Rightarrow> string \<Rightarrow> world \<Rightarrow> world" where
  "embed_command lib interaction embed_json w =
     (case
        bindE (case json_loads lib embed_json of None \<Rightarrow> Inl JSONDecodeError | Some d \<Rightarrow> Inr d)
          (\<lambda>data0.
        bindE (apply_theme (config_file w) data0 (py_str_opt_int (guild_id interaction)))
          (\<lambda>data.
        message_parts lib data))
      of
        Inl e \<Rightarrow>
          if e = JSONDecodeError then
            emit (SendMessage (Text ''Error: Invalid JSON format.'') True) w
          else
            emit (SendMessage (ErrorText ''Error parsing data: '' e) True)
              (emit (LogError ''Embed error'') w)
      | Inr (content, embeds) \<Rightarrow>
          if \<not> truthy content \<and> embeds = [] then
            emit (SendMessage (Text ''JSON must contain 'content' or 'embeds'.'') True) w
          else
            emit (ChannelSend (channel interaction) content (take 10 embeds))
              (emit (SendMessage (Text ''Embed posted successfully.'') True) w))"

subsection \<open>The welcome command\<close>

text \<open>
  Only \<^verbatim>\<open>JSONDecodeError\<close> is caught here: \<open>Inl\<close> is any other exception, which leaves the
  handler before anything was saved or sent.
\<close>

definition welcome_command ::
  "library \<Rightarrow> interaction \<Rightarrow> text_channel \<Rightarrow> string \<Rightarrow> int option \<Rightarrow> world \<Rightarrow> py_error + world" where
  "welcome_command lib interaction chan embed_json role w =
     (case json_loads lib embed_json of
        None \<Rightarrow> Inr (emit (SendMessage (Text ''Error: Invalid JSON format.'') True) w)
      | Some data \<Rightarrow>
          bindE (py_get ''content'' data) (\<lambda>content.
          bindE (if truthy content then Inr False
                 else bindE (py_get ''embeds'' data) (\<lambda>embeds.
                      if truthy embeds then Inr False
                      else bindE (py_get ''title'' data) (\<lambda>title. Inr (\<not> truthy title))))
            (\<lambda>invalid.
          if invalid then Inr (emit (SendMessage (Text ''Invalid JSON.'') True) w)
          else
            let config = load_config (config_file w);
                gid = py_str_opt_int (guild_id interaction) in
            bindE (py_in gid config) (\<lambda>has_guild.
            bindE (if \<not> has_guild then py_setitem gid (JDict []) config else Inr config) (\<lambda>config1.
            bindE (py_getitem gid config1) (\<lambda>settings.
            bindE (case settings of
                     JDict kvs \<Rightarrow>
                       Inr (JDict (dict_update
                              [(''channel_id'', JInt (channel_ident chan)),
                               (''embed_data'', data),
                               (''role_id'', (case role of None \<Rightarrow> JNull | Some r \<Rightarrow> JInt r))]
                              kvs))
                   | _ \<Rightarrow> Inl AttributeError) (\<lambda>settings1.
            bindE (py_setitem gid settings1 config1) (\<lambda>config2.
            Inr (emit (SendMessage
                         (Text (''Welcome message set to '' @ channel_mention chan @ ''.'')) False)
                   (w\<lparr>config_file := save_config config2\<rparr>))))))))))"

section \<open>What the specification says, as definitions\<close>

subsection \<open>Placeholder expansion\<close>

text \<open>
  The specification's reading of the expander: one pass over a string leaf in which every
  occurrence of \<^verbatim>\<open>{user}\<close> becomes the mention token and every occurrence of \<^verbatim>\<open>{username}\<close>
  becomes the plain name. No two occurrences of the tokens overlap, so the pass from the
  left meets each of them.
\<close>

fun spec_expand_str :: "string \<Rightarrow> string \<Rightarrow> string \<Rightarrow> string" where
  "spec_expand_str men nm [] = []"
| "spec_expand_str men nm (c # cs) =
     (if prefix ''{user}'' (c # cs) then men @ spec_expand_str men nm (drop 5 cs)
      else if prefix ''{username}'' (c # cs) then nm @ spec_expand_str men nm (drop 9 cs)
      else c # spec_expand_str men nm cs)"

fun spec_expand :: "json \<Rightarrow> member \<Rightarrow> json" where
  "spec_expand (JStr s) m = JStr (spec_expand_str (mention m) (name m) s)"
| "spec_expand (JList xs) m = JList (map (\<lambda>x. spec_expand x m) xs)"
| "spec_expand (JDict kvs) m = JDict (map (\<lambda>(k, v). (k, spec_expand v m)) kvs)"
| "spec_expand v m = v"

definition has_token :: "string \<Rightarrow> bool" where
  "has_token s = (has_sub ''{user}'' s \<or> has_sub ''{username}'' s)"

text \<open>No string leaf contains a token (the keys of an object are not leaves).\<close>

fun token_free :: "json \<Rightarrow> bool" where
  "token_free (JStr s) = (\<not> has_token s)"
| "token_free (JList xs) = list_all token_free xs"
| "token_free (JDict kvs) = list_all (\<lambda>(k, v). token_free v) kvs"
| "token_free v = True"

text \<open>
  \<open>only_tokens_changed v w\<close>: \<open>w\<close> has the shape of \<open>v\<close> (a list of the same length, an
  object with the same keys in the same order, the same scalar) and differs from it at
  most in string leaves of \<open>v\<close> that contain a token.
\<close>

fun only_tokens_changed :: "json \<Rightarrow> json \<Rightarrow> bool"
  and only_tokens_changed_list :: "json list \<Rightarrow> json list \<Rightarrow> bool"
  and only_tokens_changed_items :: "(string \<times> json) list \<Rightarrow> (string \<times> json) list \<Rightarrow> bool"
where
  "only_tokens_changed (JStr s) w = (case w of JStr s' \<Rightarrow> has_token s \<or> s' = s | _ \<Rightarrow> False)"
| "only_tokens_changed (JList xs) w =
     (case w of JList ys \<Rightarrow> only_tokens_changed_list xs ys | _ \<Rightarrow> False)"
| "only_tokens_changed (JDict kvs) w =
     (case w of JDict kvs' \<Rightarrow> only_tokens_changed_items kvs kvs' | _ \<Rightarrow> False)"
| "only_tokens_changed JNull w = (w = JNull)"
| "only_tokens_changed (JBool b) w = (w = JBool b)"
| "only_tokens_changed (JInt i) w = (w = JInt i)"
| "only_tokens_changed (JFloat r) w = (w = JFloat r)"
| "only_tokens_changed_list [] ys = (ys = [])"
| "only_tokens_changed_list (x # xs) ys =
     (case ys of
        [] \<Rightarrow> False
      | y # ys' \<Rightarrow> only_tokens_changed x y \<and> only_tokens_changed_list xs ys')"
| "only_tokens_changed_items [] kvs' = (kvs' = [])"
| "only_tokens_changed_items ((k, v) # kvs) kvs' =
     (case kvs' of
        [] \<Rightarrow> False
      | (k', v') # r \<Rightarrow> k' = k \<and> only_tokens_changed v v' \<and> only_tokens_changed_items kvs r)"

subsection \<open>Theme validation\<close>

text \<open>An integer that \<^verbatim>\<open>json.dump\<close> writes: one of at most 4300 decimal digits.\<close>

definition dumps_int :: "int \<Rightarrow> bool" where
  "dumps_int i = (\<bar>i\<bar> < 10 ^ 4300)"

text \<open>The specification's stripping: one leading \<^verbatim>\<open>#\<close> is removed, when there is one.\<close>

definition strip_leading_hash :: "string \<Rightarrow> string" where
  "strip_leading_hash s = (case s of [] \<Rightarrow> [] | c # cs \<Rightarrow> if c = CHR ''#'' then cs else s)"

text \<open>The settings object the store holds for a guild, empty when there is none yet.\<close>

definition guild_settings :: "(string \<times> json) list \<Rightarrow> string \<Rightarrow> (string \<times> json) list" where
  "guild_settings cfg gid = (case map_of cfg gid of Some (JDict st) \<Rightarrow> st | _ \<Rightarrow> [])"

subsection \<open>Theme merge\<close>

text \<open>
  The specification's merge on one embed object: the color is set to the primary color
  only if the object does not define one.
\<close>

definition spec_set_color :: "json \<Rightarrow> json \<Rightarrow> json" where
  "spec_set_color primary_color e =
     (case e of
        JDict kvs \<Rightarrow>
          if map_of kvs ''color'' = None then JDict (dict_set ''color'' primary_color kvs) else e
      | _ \<Rightarrow> e)"

definition is_dict :: "json \<Rightarrow> bool" where
  "is_dict v = (case v of JDict kvs \<Rightarrow> True | _ \<Rightarrow> False)"

text \<open>A store in which the guild \<open>gid\<close> has the theme \<open>th\<close> and nothing else.\<close>

definition themed_store :: "string \<Rightarrow> json \<Rightarrow> json option" where
  "themed_store gid th = Some (JDict [(gid, JDict [(''theme'', th)])])"

subsection \<open>Sample values\<close>

definition sample_guild :: guild where
  "sample_guild =
     \<lparr>guild_ident = 7,
      get_role = (\<lambda>r. None),
      get_channel = (\<lambda>c. if c = JInt 42 then Some 42 else None),
      add_roles_allowed = (\<lambda>r. True)\<rparr>"

definition sample_member :: member where
  "sample_member = \<lparr>mention = ''<@99>'', name = ''bob'', guild = sample_guild\<rparr>"

definition sample_payload :: json where
  "sample_payload =
     JDict [(''content'', JStr ''hi {user}''),
            (''embeds'', JList [JDict [(''title'', JStr ''{username} joined''),
                                       (''color'', JInt 10),
                                       (''inline'', JBool True)]])]"

text \<open>
  A stand-in for \<^verbatim>\<open>json.loads\<close> that knows the four documents of the table below
  and raises on every other string; \<open>quoted\<close> writes a JSON string literal.
\<close>

definition quoted :: "string \<Rightarrow> string" where
  "quoted s = CHR 0x22 # s @ [CHR 0x22]"

definition doc_empty_content :: string where
  "doc_empty_content = ''{'' @ quoted ''content'' @ '': '' @ quoted [] @ ''}''"

definition doc_hi_user :: string where
  "doc_hi_user = ''{'' @ quoted ''content'' @ '': '' @ quoted ''hi {user}'' @ ''}''"

definition doc_embed_x :: string where
  "doc_embed_x =
     ''{'' @ quoted ''embeds'' @ '': [{'' @ quoted ''title'' @ '': '' @ quoted ''x'' @ ''}]}''"

definition sample_documents :: "(string \<times> json) list" where
  "sample_documents =
     [(''{}'', JDict []),
      (doc_empty_content, JDict [(''content'', JStr [])]),
      (doc_hi_user, JDict [(''content'', JStr ''hi {user}'')]),
      (doc_embed_x, JDict [(''embeds'', JList [JDict [(''title'', JStr ''x'')]])])]"

definition sample_library :: library where
  "sample_library = \<lparr>json_loads = map_of sample_documents, from_dict = Inr\<rparr>"

definition sample_interaction :: interaction where
  "sample_interaction = \<lparr>guild_id = Some 1, channel = 5\<rparr>"

definition sample_channel :: text_channel where
  "sample_channel = \<lparr>channel_ident = 42, channel_mention = ''<#42>''\<rparr>"

definition fresh_world :: world where
  "fresh_world = \<lparr>config_file = None, trace = []\<rparr>"

section \<open>Properties of the placeholder expander\<close>

lemma replace_from_id: "\<not> has_sub old s \<Longrightarrow> replace_from old new s = s"
  by (induction old new s rule: replace_from.induct) auto

lemma str_replace_id: "old \<noteq> [] \<Longrightarrow> \<not> has_sub old s \<Longrightarrow> str_replace old new s = s"
  by (simp add: str_replace_def replace_from_id)

lemma expand_str_id:
  "\<not> has_token s \<Longrightarrow> str_replace ''{username}'' nm (str_replace ''{user}'' men s) = s"
  by (simp add: has_token_def str_replace_id)

lemma has_sub_sublist: "has_sub t s \<longleftrightarrow> sublist t s"
  by (induction s) (auto simp: sublist_Cons_right)

lemma token_free_fixed: "token_free v \<Longrightarrow> replace_placeholders v m = v"
proof (induction v m rule: replace_placeholders.induct)
  case (1 s m)
  then show ?case by (simp add: expand_str_id)
next
  case (2 xs m)
  then show ?case by (simp add: list_all_iff map_idI)
next
  case (3 kvs m)
  then have "\<And>k v. (k, v) \<in> set kvs \<Longrightarrow> replace_placeholders v m = v"
    by (auto simp: list_all_iff)
  then have "map (\<lambda>(k, v). (k, replace_placeholders v m)) kvs = kvs"
    by (intro map_idI) auto
  then show ?case by simp
qed simp_all

lemma only_tokens_changed_map:
  "(\<And>x. x \<in> set xs \<Longrightarrow> only_tokens_changed x (f x)) \<Longrightarrow>
   only_tokens_changed_list xs (map f xs)"
  by (induction xs) auto

lemma only_tokens_changed_map_items:
  "\<forall>kv \<in> set kvs. only_tokens_changed (snd kv) (f (snd kv)) \<Longrightarrow>
   only_tokens_changed_items kvs (map (\<lambda>(k, v). (k, f v)) kvs)"
  by (induction kvs) auto

subsection \<open>Two replacements in sequence against one pass\<close>

lemma replace_from_hit:
  "prefix old (c # cs) \<Longrightarrow>
   replace_from old new (c # cs) = new @ replace_from old new (drop (length old - 1) cs)"
  by simp

lemma replace_from_miss:
  "\<not> prefix old (c # cs) \<Longrightarrow> replace_from old new (c # cs) = c # replace_from old new cs"
  by simp

text \<open>A stretch of text without the first character of \<open>old\<close> is copied.\<close>

lemma skip_plain:
  "old \<noteq> [] \<Longrightarrow> hd old \<notin> set xs \<Longrightarrow>
   replace_from old new (xs @ ys) = xs @ replace_from old new ys"
  by (induction xs) (auto simp: prefix_def neq_Nil_conv)

text \<open>
  If \<open>new\<close> starts with a character that \<open>p\<close> does not have, a copy of \<open>p\<close> at the start
  of the result was already at the start of the input.
\<close>

lemma prefix_through_replace:
  "new \<noteq> [] \<Longrightarrow> hd new \<notin> set p \<Longrightarrow> prefix p (replace_from old new x) \<Longrightarrow> prefix p x"
proof (induction p arbitrary: x)
  case Nil
  then show ?case by simp
next
  case (Cons a q)
  show ?case
  proof (cases x)
    case Nil
    with Cons.prems show ?thesis by simp
  next
    case (Cons d ds)
    show ?thesis
    proof (cases "prefix old (d # ds)")
      case True
      with Cons.prems \<open>x = d # ds\<close>
      have "prefix (a # q) (new @ replace_from old new (drop (length old - 1) ds))"
        by simp
      with Cons.prems(1,2) show ?thesis
        by (cases new) auto
    next
      case False
      with Cons.prems \<open>x = d # ds\<close> have "a = d" "prefix q (replace_from old new ds)"
        by auto
      moreover from Cons.prems have "hd new \<notin> set q" by simp
      ultimately show ?thesis
        using Cons.IH[OF Cons.prems(1)] \<open>x = d # ds\<close> by simp
    qed
  qed
qed

lemma sequential_is_simultaneous:
  "men \<noteq> [] \<Longrightarrow> CHR ''{'' \<notin> set men \<Longrightarrow> hd men \<notin> set ''username}'' \<Longrightarrow>
   replace_from ''{username}'' nm (replace_from ''{user}'' men s) = spec_expand_str men nm s"
proof (induction men nm s rule: spec_expand_str.induct)
  case (1 men nm)
  then show ?case by simp
next
  case (2 men nm c cs)
  have past_mention:
    "replace_from ''{username}'' nm (men @ ys) = men @ replace_from ''{username}'' nm ys" for ys
    using skip_plain[of "''{username}''" men nm ys] "2.prems" by simp
  consider (user) "prefix ''{user}'' (c # cs)"
    | (username) "\<not> prefix ''{user}'' (c # cs)" "prefix ''{username}'' (c # cs)"
    | (plain) "\<not> prefix ''{user}'' (c # cs)" "\<not> prefix ''{username}'' (c # cs)"
    by blast
  then show ?case
  proof cases
    case user
    have five: "length ''{user}'' - 1 = 5"
      by simp
    have r1: "replace_from ''{user}'' men (c # cs) = men @ replace_from ''{user}'' men (drop 5 cs)"
      using replace_from_hit[OF user, of men] by (simp only: five)
    have sp: "spec_expand_str men nm (c # cs) = men @ spec_expand_str men nm (drop 5 cs)"
      by (simp only: spec_expand_str.simps user if_True)
    have ih: "replace_from ''{username}'' nm (replace_from ''{user}'' men (drop 5 cs)) =
        spec_expand_str men nm (drop 5 cs)"
      by (rule "2.IH"(1)[OF user "2.prems"])
    show ?thesis
      by (simp only: r1 sp past_mention ih)
  next
    case username
    then obtain t where cs: "c = CHR ''{''" "cs = ''username}'' @ t"
      by (auto simp: prefix_def)
    have "replace_from ''{user}'' men (''username}'' @ t) =
        ''username}'' @ replace_from ''{user}'' men t"
      by (rule skip_plain) simp_all
    then have r1: "replace_from ''{user}'' men (c # cs) =
        ''{username}'' @ replace_from ''{user}'' men t"
      using cs by simp
    have r2: "replace_from ''{username}'' nm (''{username}'' @ ys) =
        nm @ replace_from ''{username}'' nm ys" for ys
      by simp
    have t: "drop 9 cs = t"
      using cs by simp
    have sp: "spec_expand_str men nm (c # cs) = nm @ spec_expand_str men nm (drop 9 cs)"
      by (simp only: spec_expand_str.simps username if_True if_False)
    have ih: "replace_from ''{username}'' nm (replace_from ''{user}'' men (drop 9 cs)) =
        spec_expand_str men nm (drop 9 cs)"
      by (rule "2.IH"(2)[OF username "2.prems"])
    show ?thesis
      using ih by (simp only: r1 r2 sp t)
  next
    case plain
    have r1: "replace_from ''{user}'' men (c # cs) = c # replace_from ''{user}'' men cs"
      by (rule replace_from_miss[OF plain(1)])
    have "\<not> prefix ''{username}'' (c # replace_from ''{user}'' men cs)"
    proof
      assume p: "prefix ''{username}'' (c # replace_from ''{user}'' men cs)"
      then have c: "CHR ''{'' = c"
        and q: "prefix ''username}'' (replace_from ''{user}'' men cs)"
        unfolding Cons_prefix_Cons by blast+
      have "prefix ''username}'' cs"
        by (rule prefix_through_replace[OF "2.prems"(1) "2.prems"(3) q])
      with c have "prefix ''{username}'' (c # cs)"
        unfolding Cons_prefix_Cons by blast
      with plain show False by blast
    qed
    then have r2: "replace_from ''{username}'' nm (c # replace_from ''{user}'' men cs) =
        c # replace_from ''{username}'' nm (replace_from ''{user}'' men cs)"
      by (rule replace_from_miss)
    have sp: "spec_expand_str men nm (c # cs) = c # spec_expand_str men nm cs"
      by (simp only: spec_expand_str.simps plain if_False)
    have ih: "replace_from ''{username}'' nm (replace_from ''{user}'' men cs) =
        spec_expand_str men nm cs"
      by (rule "2.IH"(3)[OF plain "2.prems"])
    show ?thesis
      by (simp only: r1 r2 sp ih)
  qed
qed

text \<open>The mention tokens of the platform, \<^verbatim>\<open><@\<close> then the member's id then \<^verbatim>\<open>>\<close>, qualify.\<close>

lemma platform_mention_qualifies:
  assumes "set ds \<subseteq> set ''0123456789''"
  shows "''<@'' @ ds @ ''>'' \<noteq> [] \<and> CHR ''{'' \<notin> set (''<@'' @ ds @ ''>'') \<and>
         hd (''<@'' @ ds @ ''>'') \<notin> set ''username}''"
  using assms by auto

text \<open>
  C1. For every JSON-like value and every member, the expander returns a value of the
  same structure in which every string leaf has each \<^verbatim>\<open>{user}\<close> replaced by the mention
  token and each \<^verbatim>\<open>{username}\<close> by the plain name, and every other scalar is unchanged.
  The member is the platform's, whose mention token is \<^verbatim>\<open><@\<close>, the id, \<^verbatim>\<open>>\<close>; of that token
  the proof needs three facts only (\<open>platform_mention_qualifies\<close>): it is not empty, has
  no \<^verbatim>\<open>{\<close> in it and does not start with a character of \<^verbatim>\<open>username}\<close>.
\<close>

theorem expander_is_one_pass:
  assumes "mention m \<noteq> []" and "CHR ''{'' \<notin> set (mention m)"
    and "hd (mention m) \<notin> set ''username}''"
  shows "replace_placeholders v m = spec_expand v m"
  using assms
proof (induction v m rule: replace_placeholders.induct)
  case (1 s m)
  then show ?case
    by (simp add: str_replace_def sequential_is_simultaneous)
next
  case (3 kvs m)
  then have "\<And>k v. (k, v) \<in> set kvs \<Longrightarrow> replace_placeholders v m = spec_expand v m"
    by blast
  then show ?case by auto
qed simp_all

theorem expander_is_one_pass_witness:
  "mention sample_member \<noteq> [] \<and> CHR ''{'' \<notin> set (mention sample_member) \<and>
   hd (mention sample_member) \<notin> set ''username}'' \<and>
   replace_placeholders sample_payload sample_member = spec_expand sample_payload sample_member \<and>
   spec_expand sample_payload sample_member =
     JDict [(''content'', JStr ''hi <@99>''),
            (''embeds'', JList [JDict [(''title'', JStr ''bob joined''),
                                       (''color'', JInt 10),
                                       (''inline'', JBool True)]])]"
proof -
  have h1: "mention sample_member \<noteq> []"
    and h2: "CHR ''{'' \<notin> set (mention sample_member)"
    and h3: "hd (mention sample_member) \<notin> set ''username}''"
    by (simp_all add: sample_member_def)
  show ?thesis
    using h1 h2 h3 expander_is_one_pass[OF h1 h2 h3, of sample_payload]
    by (simp add: sample_member_def sample_payload_def)
qed

text \<open>
  The facts about the mention token are what makes the two replacements in sequence one
  pass. A record whose mention token were the text \<^verbatim>\<open>{username}\<close>, which the platform
  gives to no member, would have the second replacement rewrite what the first put in.
\<close>

lemma second_replacement_reads_the_first:
  "replace_placeholders (JStr ''{user}'')
     \<lparr>mention = ''{username}'', name = ''bob'', guild = sample_guild\<rparr> = JStr ''bob'' \<and>
   spec_expand (JStr ''{user}'')
     \<lparr>mention = ''{username}'', name = ''bob'', guild = sample_guild\<rparr> = JStr ''{username}''"
  by (simp add: str_replace_def)

text \<open>
  C2. Expanding placeholders keeps the shape of the value (lists keep their length,
  objects their keys, scalars their type and value) and changes only string leaves that
  contain \<^verbatim>\<open>{user}\<close> or \<^verbatim>\<open>{username}\<close>; every other leaf comes back equal.
\<close>

theorem expander_frame: "only_tokens_changed v (replace_placeholders v m)"
proof (induction v m rule: replace_placeholders.induct)
  case (1 s m)
  then show ?case using expand_str_id by auto
next
  case (2 xs m)
  then show ?case by (simp add: only_tokens_changed_map)
next
  case (3 kvs m)
  then have "\<forall>kv \<in> set kvs. only_tokens_changed (snd kv) (replace_placeholders (snd kv) m)"
    by auto
  then show ?case by (simp add: only_tokens_changed_map_items)
qed simp_all

theorem expander_frame_witness:
  "only_tokens_changed sample_payload (replace_placeholders sample_payload sample_member) \<and>
   replace_placeholders sample_payload sample_member =
     JDict [(''content'', JStr ''hi <@99>''),
            (''embeds'', JList [JDict [(''title'', JStr ''bob joined''),
                                       (''color'', JInt 10),
                                       (''inline'', JBool True)]])]"
  using expander_frame[of sample_payload sample_member]
  by (simp add: sample_member_def sample_payload_def str_replace_def)

text \<open>
  C3. When no string leaf of the expanded value contains a token, expanding it a second
  time returns it unchanged.
\<close>

theorem expander_idempotent:
  "token_free (replace_placeholders v m) \<Longrightarrow>
   replace_placeholders (replace_placeholders v m) m = replace_placeholders v m"
  by (rule token_free_fixed)

theorem expander_idempotent_witness:
  "token_free (replace_placeholders sample_payload sample_member) \<and>
   replace_placeholders (replace_placeholders sample_payload sample_member) sample_member =
     replace_placeholders sample_payload sample_member"
proof -
  have h: "token_free (replace_placeholders sample_payload sample_member)"
    by (simp add: sample_member_def sample_payload_def str_replace_def has_token_def)
  show ?thesis
    using h expander_idempotent[OF h] by simp
qed

text \<open>
  The condition of C3 is not empty: a plain name that is itself a token comes back in the
  result, and a second expansion replaces it.
\<close>

lemma expansion_of_token_name:
  "replace_placeholders (JStr ''{username}'')
     \<lparr>mention = ''<@99>'', name = ''{user}'', guild = sample_guild\<rparr> = JStr ''{user}'' \<and>
   replace_placeholders (JStr ''{user}'')
     \<lparr>mention = ''<@99>'', name = ''{user}'', guild = sample_guild\<rparr> = JStr ''<@99>''"
  by (simp add: str_replace_def)

section \<open>Properties of the store and of the handlers\<close>

subsection \<open>Auxiliary facts\<close>

lemma bindE_Inr [simp]: "bindE (Inr x) f = f x"
  by (simp add: bindE_def)

lemma bindE_Inl [simp]: "bindE (Inl e) f = Inl e"
  by (simp add: bindE_def)

lemma map_of_dict_set: "map_of (dict_set k v kvs) k' = (if k' = k then Some v else map_of kvs k')"
  by (induction kvs) auto

lemma dict_set_twice: "dict_set k v (dict_set k u kvs) = dict_set k v kvs"
  by (induction kvs) auto

lemma py_in_dict: "py_in k (JDict kvs) = Inr (map_of kvs k \<noteq> None)"
  by (simp add: map_of_eq_None_iff)

lemmas int16_defs = py_int16_def py_strip_def split_sign_def skip_0x_def hex_number_def
  hex_val_def is_py_space_def

lemma py_int16_error: "py_int16 s = Inl e \<Longrightarrow> e = ValueError"
  by (auto simp: py_int16_def split: prod.splits option.splits)

lemma secondary_int_error: "secondary_int s = Inl e \<Longrightarrow> e = ValueError"
  by (auto simp: secondary_int_def bindE_def dest: py_int16_error
      split: option.splits if_splits sum.splits)

lemma str_of_guild_1: "py_str_opt_int (Some 1) = ''1''"
  by (simp add: py_str_opt_int_def py_str_int_def)

lemma str_of_guild_7: "py_str_int 7 = ''7''"
  by (simp add: py_str_int_def)

lemma parse_FF5733: "py_int16 (py_strip ''#'' ''#FF5733'') = Inr 16734003"
  by (simp add: int16_defs)

lemma parse_black: "py_int16 (py_strip ''#'' ''#000000'') = Inr 0"
  by (simp add: int16_defs)

lemma loads_empty_content:
  "json_loads sample_library doc_empty_content = Some (JDict [(''content'', JStr [])])"
  by (simp add: sample_library_def sample_documents_def doc_empty_content_def quoted_def)

lemma loads_hi_user:
  "json_loads sample_library doc_hi_user = Some (JDict [(''content'', JStr ''hi {user}'')])"
  by (simp add: sample_library_def sample_documents_def doc_empty_content_def doc_hi_user_def
      quoted_def)

lemma loads_embed_x:
  "json_loads sample_library doc_embed_x =
     Some (JDict [(''embeds'', JList [JDict [(''title'', JStr ''x'')]])])"
  by (simp add: sample_library_def sample_documents_def doc_empty_content_def doc_hi_user_def
      doc_embed_x_def quoted_def)

lemma from_dict_sample: "from_dict sample_library = Inr"
  by (simp add: sample_library_def)

lemma loads_not_json: "json_loads sample_library ''{not json'' = None"
  by (simp add: sample_library_def sample_documents_def doc_empty_content_def doc_hi_user_def
      doc_embed_x_def quoted_def)

subsection \<open>The theme merger\<close>

lemma set_color_dict: "set_color p (JDict kvs) = Inr (spec_set_color p (JDict kvs))"
  by (simp add: set_color_def spec_set_color_def py_in_dict del: py_in.simps)

lemma mapE_set_color:
  "\<forall>e \<in> set es. is_dict e \<Longrightarrow> mapE (set_color p) es = Inr (map (spec_set_color p) es)"
proof (induction es)
  case Nil
  then show ?case by simp
next
  case (Cons e es)
  then obtain kvs where "e = JDict kvs"
    by (cases e) (simp_all add: is_dict_def)
  with Cons show ?case
    by (simp add: set_color_dict)
qed

text \<open>Nothing stored for the guild, or no theme in it, or a primary color that is not true.\<close>

lemma apply_theme_unconfigured:
  assumes "load_config file = JDict cfg"
    and "map_of cfg gid = None \<or>
         (\<exists>st. map_of cfg gid = Some (JDict st) \<and>
            (map_of st ''theme'' = None \<or>
             (\<exists>th. map_of st ''theme'' = Some (JDict th) \<and> \<not> truthy (dict_get th ''primary''))))"
  shows "apply_theme file data gid = Inr data"
  using assms by (auto simp: apply_theme_def py_in_dict simp del: py_in.simps)

text \<open>
  A primary color that is true goes into every embed of the list under \<^verbatim>\<open>embeds\<close> that has
  no color, and into the payload itself when that has no \<^verbatim>\<open>embeds\<close> but a title, a
  description or fields.
\<close>

lemma apply_theme_configured:
  assumes "load_config file = JDict cfg" and "map_of cfg gid = Some (JDict st)"
    and "map_of st ''theme'' = Some (JDict th)" and "truthy (dict_get th ''primary'')"
  shows "map_of d ''embeds'' = Some (JList es) \<Longrightarrow> \<forall>e \<in> set es. is_dict e \<Longrightarrow>
           apply_theme file (JDict d) gid =
             Inr (JDict (dict_set ''embeds''
                    (JList (map (spec_set_color (dict_get th ''primary'')) es)) d))"
    and "map_of d ''embeds'' = None \<Longrightarrow>
           apply_theme file (JDict d) gid =
             Inr (if map_of d ''title'' \<noteq> None \<or> map_of d ''description'' \<noteq> None \<or>
                     map_of d ''fields'' \<noteq> None
                  then spec_set_color (dict_get th ''primary'') (JDict d) else JDict d)"
  using assms
  by (simp_all add: apply_theme_def py_in_dict mapE_set_color set_color_dict
      del: py_in.simps)

text \<open>
  C4, where the code departs from it. The theme command stores the black theme
  \<^verbatim>\<open>#000000\<close> as primary color 0 and confirms it; the merger then leaves an embed without
  a color as it is, where the claim has the color set to the stored primary color.
\<close>

theorem black_theme_is_not_applied:
  "theme_command sample_interaction ''#000000'' None fresh_world =
     \<lparr>config_file = themed_store ''1'' (JDict [(''primary'', JInt 0), (''secondary'', JNull)]),
      trace = [SendMessage (Embed ''Theme Updated'' ''Primary color set to #000000'' 0 []) False]\<rparr> \<and>
   apply_theme (themed_store ''1'' (JDict [(''primary'', JInt 0), (''secondary'', JNull)]))
       (JDict [(''embeds'', JList [JDict [(''title'', JStr ''x'')]])]) ''1'' =
     Inr (JDict [(''embeds'', JList [JDict [(''title'', JStr ''x'')]])])"
  by (simp add: theme_command_def parse_black secondary_int_def str_of_guild_1 save_config_def
      emit_def sample_interaction_def fresh_world_def load_config_def themed_store_def
      apply_theme_def dict_get_def)

text \<open>The scenario of the specification with primary color 255, through the embed command.\<close>

lemma theme_255_scenario:
  "embed_command sample_library sample_interaction doc_embed_x
     \<lparr>config_file = themed_store ''1'' (JDict [(''primary'', JInt 255)]), trace = []\<rparr> =
   \<lparr>config_file = themed_store ''1'' (JDict [(''primary'', JInt 255)]),
    trace = [SendMessage (Text ''Embed posted successfully.'') True,
             ChannelSend 5 JNull [JDict [(''title'', JStr ''x''), (''color'', JInt 255)]]]\<rparr>"
  by (simp add: embed_command_def loads_embed_x str_of_guild_1 sample_interaction_def
      themed_store_def apply_theme_def load_config_def dict_get_def set_color_def
      message_parts_def emit_def from_dict_sample)

text \<open>
  C10. When the stored theme of the guild has primary color 0, the merger returns every
  payload unchanged, as it does when no primary color is stored.
\<close>

theorem theme_primary_zero_is_noop:
  assumes "file = Some (JDict cfg)" and "map_of cfg gid = Some (JDict settings)"
    and "map_of settings ''theme'' = Some (JDict th)" and "map_of th ''primary'' = Some (JInt 0)"
  shows "apply_theme file data gid = Inr data"
  using assms
  by (simp add: apply_theme_def load_config_def py_in_dict dict_get_def del: py_in.simps)

theorem theme_primary_zero_is_noop_witness:
  "apply_theme (themed_store ''1'' (JDict [(''primary'', JInt 0), (''secondary'', JNull)]))
     sample_payload ''1'' = Inr sample_payload"
  using theme_primary_zero_is_noop[of
      "themed_store ''1'' (JDict [(''primary'', JInt 0), (''secondary'', JNull)])"
      "[(''1'', JDict [(''theme'', JDict [(''primary'', JInt 0), (''secondary'', JNull)])])]"
      "''1''"
      "[(''theme'', JDict [(''primary'', JInt 0), (''secondary'', JNull)])]"
      "[(''primary'', JInt 0), (''secondary'', JNull)]"
      sample_payload]
  by (simp add: themed_store_def)

subsection \<open>The theme command\<close>

text \<open>
  C5, with the number the code stores. From an empty store, the theme command with
  primary \<^verbatim>\<open>#FF5733\<close> and no secondary for guild 1 leaves the store as
  \<^verbatim>\<open>{"1": {"theme": {"primary": 16734003, "secondary": null}}}\<close>.
\<close>

theorem theme_scenario:
  assumes "load_config (config_file w) = JDict []" and "guild_id interaction = Some 1"
  shows "config_file (theme_command interaction ''#FF5733'' None w) =
    Some (JDict [(''1'', JDict [(''theme'',
      JDict [(''primary'', JInt 16734003), (''secondary'', JNull)])])])"
  using assms
  by (simp add: theme_command_def parse_FF5733 secondary_int_def str_of_guild_1
      save_config_def emit_def)

theorem theme_scenario_witness:
  "load_config (config_file fresh_world) = JDict [] \<and>
   guild_id sample_interaction = Some 1 \<and>
   config_file (theme_command sample_interaction ''#FF5733'' None fresh_world) =
    Some (JDict [(''1'', JDict [(''theme'',
      JDict [(''primary'', JInt 16734003), (''secondary'', JNull)])])])"
proof -
  have h1: "load_config (config_file fresh_world) = JDict []"
    by (simp add: fresh_world_def load_config_def)
  have h2: "guild_id sample_interaction = Some 1"
    by (simp add: sample_interaction_def)
  show ?thesis
    using h1 h2 theme_scenario[OF h1 h2] by simp
qed

text \<open>C5 as stated fails: 16733491 is \<^verbatim>\<open>0xFF5533\<close>, not what \<^verbatim>\<open>#FF5733\<close> parses to.\<close>

theorem theme_scenario_counterexample:
  "config_file (theme_command sample_interaction ''#FF5733'' None fresh_world) \<noteq>
    Some (JDict [(''1'', JDict [(''theme'',
      JDict [(''primary'', JInt 16733491), (''secondary'', JNull)])])])"
  by (simp add: theme_command_def parse_FF5733 secondary_int_def str_of_guild_1
      save_config_def emit_def sample_interaction_def fresh_world_def load_config_def)

text \<open>
  C6, as the code has it. Each color string has all its leading and trailing \<^verbatim>\<open>#\<close>
  stripped and the rest is parsed as a base-16 integer; an empty secondary counts as not
  given. On a store that is an object whose entry for the guild, if any, is an object:
  when both parses succeed, with values of at most 4300 decimal digits, the parsed values
  are saved as the guild's theme and echoed; when one parse fails the user gets the
  validation error and the store is unchanged.
\<close>

theorem theme_command_validates:
  assumes "load_config (config_file w) = JDict cfg"
    and "gid = py_str_opt_int (guild_id interaction)"
    and "map_of cfg gid = None \<or> (\<exists>st. map_of cfg gid = Some (JDict st))"
  shows "(py_int16 (py_strip ''#'' primary) = Inr p \<and> secondary_int secondary = Inr q \<and>
          dumps_int p \<and> (\<forall>i. q = Some i \<longrightarrow> dumps_int i) \<longrightarrow>
          theme_command interaction primary secondary w =
            emit (SendMessage
                    (Embed ''Theme Updated'' (''Primary color set to '' @ primary) p
                       (case (q, secondary) of
                          (Some i, Some s) \<Rightarrow> if i \<noteq> 0 then [(''Secondary'', s)] else []
                        | _ \<Rightarrow> []))
                    False)
              (w\<lparr>config_file :=
                   Some (JDict (dict_set gid
                     (JDict (dict_set ''theme''
                        (JDict [(''primary'', JInt p),
                                (''secondary'', (case q of None \<Rightarrow> JNull | Some i \<Rightarrow> JInt i))])
                        (guild_settings cfg gid)))
                     cfg))\<rparr>))
       \<and> (py_int16 (py_strip ''#'' primary) = Inl e \<or> secondary_int secondary = Inl e \<longrightarrow>
          theme_command interaction primary secondary w =
            emit (SendMessage (Text ''Invalid hex color format. Use format like #FF5733.'') True) w)"
proof (intro conjI impI)
  assume ok: "py_int16 (py_strip ''#'' primary) = Inr p \<and> secondary_int secondary = Inr q \<and>
          dumps_int p \<and> (\<forall>i. q = Some i \<longrightarrow> dumps_int i)"
  from assms(3) show "theme_command interaction primary secondary w =
            emit (SendMessage
                    (Embed ''Theme Updated'' (''Primary color set to '' @ primary) p
                       (case (q, secondary) of
                          (Some i, Some s) \<Rightarrow> if i \<noteq> 0 then [(''Secondary'', s)] else []
                        | _ \<Rightarrow> []))
                    False)
              (w\<lparr>config_file :=
                   Some (JDict (dict_set gid
                     (JDict (dict_set ''theme''
                        (JDict [(''primary'', JInt p),
                                (''secondary'', (case q of None \<Rightarrow> JNull | Some i \<Rightarrow> JInt i))])
                        (guild_settings cfg gid)))
                     cfg))\<rparr>)"
  proof
    assume "map_of cfg gid = None"
    with ok assms(1,2) show ?thesis
      by (simp add: theme_command_def py_in_dict map_of_dict_set dict_set_twice
          guild_settings_def save_config_def del: py_in.simps)
  next
    assume "\<exists>st. map_of cfg gid = Some (JDict st)"
    then obtain st where "map_of cfg gid = Some (JDict st)" ..
    with ok assms(1,2) show ?thesis
      by (simp add: theme_command_def py_in_dict map_of_dict_set guild_settings_def
          save_config_def del: py_in.simps)
  qed
next
  assume bad: "py_int16 (py_strip ''#'' primary) = Inl e \<or> secondary_int secondary = Inl e"
  then have ve: "e = ValueError"
    using py_int16_error secondary_int_error by blast
  show "theme_command interaction primary secondary w =
          emit (SendMessage (Text ''Invalid hex color format. Use format like #FF5733.'') True) w"
  proof (cases "py_int16 (py_strip ''#'' primary)")
    case (Inl e')
    then have "e' = ValueError" by (rule py_int16_error)
    with Inl show ?thesis
      by (simp add: theme_command_def is_value_error_def)
  next
    case (Inr p')
    with bad have "secondary_int secondary = Inl e" by simp
    with Inr ve show ?thesis
      by (simp add: theme_command_def is_value_error_def)
  qed
qed

lemma parse_ff_hashes: "py_int16 (py_strip ''#'' ''##ff#'') = Inr 255"
  by (simp add: int16_defs)

lemma parse_secondary_10: "secondary_int (Some ''#10'') = Inr (Some 16)"
  by (simp add: secondary_int_def int16_defs)

lemma parse_secondary_zz: "secondary_int (Some ''#zz'') = Inl ValueError"
  by (simp add: secondary_int_def int16_defs)

text \<open>White space that is not ASCII is white space to the parse as well.\<close>

lemma parse_after_no_break_space:
  "py_int16 (py_strip ''#'' (CHR 0xA0 # ''ff'')) = Inr 255 \<and>
   py_int16 (py_strip ''#'' (''#ff'' @ [CHR 0x85])) = Inr 255 \<and>
   py_int16 (py_strip ''#'' (''ff'' @ [CHR 0x1C])) = Inl ValueError"
  by (simp add: int16_defs)

lemma dumps_int_small: "\<bar>i\<bar> < 10 ^ 9 \<Longrightarrow> dumps_int i"
proof -
  assume small: "\<bar>i\<bar> < 10 ^ 9"
  have "(10::int) ^ 9 \<le> 10 ^ 4300"
    by (rule power_increasing) simp_all
  with small show ?thesis
    by (simp only: dumps_int_def)
qed

theorem theme_command_validates_witness:
  "dumps_int 255 \<and> dumps_int 16 \<and>
   theme_command sample_interaction ''##ff#'' (Some ''#10'') fresh_world =
     \<lparr>config_file = themed_store ''1'' (JDict [(''primary'', JInt 255), (''secondary'', JInt 16)]),
      trace = [SendMessage
                 (Embed ''Theme Updated'' ''Primary color set to ##ff#'' 255 [(''Secondary'', ''#10'')])
                 False]\<rparr> \<and>
   theme_command sample_interaction ''##ff#'' (Some ''#zz'') fresh_world =
     \<lparr>config_file = None,
      trace = [SendMessage (Text ''Invalid hex color format. Use format like #FF5733.'') True]\<rparr>"
proof -
  have h1: "load_config (config_file fresh_world) = JDict []"
    by (simp add: fresh_world_def load_config_def)
  have h2: "''1'' = py_str_opt_int (guild_id sample_interaction)"
    by (simp add: sample_interaction_def str_of_guild_1)
  have h3: "map_of [] ''1'' = None \<or> (\<exists>st. map_of [] ''1'' = Some (JDict st))"
    by simp
  have d1: "dumps_int 255" and d2: "dumps_int 16"
    by (rule dumps_int_small, simp)+
  show ?thesis
    using d1 d2
      theme_command_validates[OF h1 h2 h3, of "''##ff#''" 255 "Some ''#10''" "Some 16" ValueError]
      theme_command_validates[OF h1 h2 h3, of "''##ff#''" 255 "Some ''#zz''" None ValueError]
    by (simp add: parse_ff_hashes parse_secondary_10 parse_secondary_zz emit_def fresh_world_def
        guild_settings_def themed_store_def)
qed

text \<open>
  C6 as stated fails: \<^verbatim>\<open>FF5733#\<close> has no leading \<^verbatim>\<open>#\<close> to remove and is not a base-16
  literal, yet the command accepts it and saves 16734003.
\<close>

theorem theme_command_counterexample:
  "py_int16 (strip_leading_hash ''FF5733#'') = Inl ValueError \<and>
   theme_command sample_interaction ''FF5733#'' None fresh_world =
     \<lparr>config_file =
        themed_store ''1'' (JDict [(''primary'', JInt 16734003), (''secondary'', JNull)]),
      trace = [SendMessage (Embed ''Theme Updated'' ''Primary color set to FF5733#'' 16734003 [])
                 False]\<rparr>"
proof -
  have p: "py_int16 (py_strip ''#'' ''FF5733#'') = Inr 16734003"
    by (simp add: int16_defs)
  have q: "py_int16 (strip_leading_hash ''FF5733#'') = Inl ValueError"
    by (simp add: int16_defs strip_leading_hash_def)
  show ?thesis
    by (simp add: q theme_command_def p secondary_int_def str_of_guild_1 save_config_def emit_def
        sample_interaction_def fresh_world_def load_config_def themed_store_def)
qed

subsection \<open>The embed command\<close>

text \<open>
  C7. When the input of the embed command does not parse as JSON, the user gets the
  \<^verbatim>\<open>Invalid JSON format\<close> reply, nothing is sent to the channel and the store is as it was:
  the reply is all that happens.
\<close>

theorem embed_invalid_json:
  assumes "json_loads lib embed_json = None"
  shows "embed_command lib interaction embed_json w =
     w\<lparr>trace := trace w @ [SendMessage (Text ''Error: Invalid JSON format.'') True]\<rparr>"
  using assms by (simp add: embed_command_def emit_def)

theorem embed_invalid_json_witness:
  "json_loads sample_library ''{not json'' = None \<and>
   embed_command sample_library sample_interaction ''{not json'' fresh_world =
     \<lparr>config_file = None, trace = [SendMessage (Text ''Error: Invalid JSON format.'') True]\<rparr>"
  using loads_not_json embed_invalid_json[OF loads_not_json, of sample_interaction fresh_world]
  by (simp add: fresh_world_def)

subsection \<open>The welcome command\<close>

text \<open>
  C8, as the code has it. For a parsed JSON object, on a store that is an object whose
  entry for the guild, if any, is an object: if the value under \<^verbatim>\<open>content\<close>, \<^verbatim>\<open>embeds\<close> or
  \<^verbatim>\<open>title\<close> is true (present and not null, false, zero or empty), the channel id, the
  payload and the role id (null without a role) are saved in the guild's settings;
  otherwise the user gets the validation error and the store is unchanged.
\<close>

theorem welcome_command_persists:
  assumes "json_loads lib embed_json = Some (JDict kvs)"
    and "load_config (config_file w) = JDict cfg"
    and "gid = py_str_opt_int (guild_id interaction)"
    and "map_of cfg gid = None \<or> (\<exists>st. map_of cfg gid = Some (JDict st))"
  shows "welcome_command lib interaction chan embed_json role w =
     (if truthy (dict_get kvs ''content'') \<or> truthy (dict_get kvs ''embeds'') \<or>
         truthy (dict_get kvs ''title'')
      then Inr (emit (SendMessage
                        (Text (''Welcome message set to '' @ channel_mention chan @ ''.'')) False)
                 (w\<lparr>config_file :=
                      Some (JDict (dict_set gid
                        (JDict (dict_update
                           [(''channel_id'', JInt (channel_ident chan)),
                            (''embed_data'', JDict kvs),
                            (''role_id'', (case role of None \<Rightarrow> JNull | Some r \<Rightarrow> JInt r))]
                           (guild_settings cfg gid)))
                        cfg))\<rparr>))
      else Inr (emit (SendMessage (Text ''Invalid JSON.'') True) w))"
  using assms(4)
proof
  assume "map_of cfg gid = None"
  with assms(1,2,3) show ?thesis
    by (simp add: welcome_command_def py_in_dict map_of_dict_set dict_set_twice
        guild_settings_def save_config_def del: py_in.simps dict_update.simps)
next
  assume "\<exists>st. map_of cfg gid = Some (JDict st)"
  then obtain st where "map_of cfg gid = Some (JDict st)" ..
  with assms(1,2,3) show ?thesis
    by (simp add: welcome_command_def py_in_dict map_of_dict_set guild_settings_def
        save_config_def del: py_in.simps dict_update.simps)
qed

theorem welcome_command_persists_witness:
  "welcome_command sample_library sample_interaction sample_channel doc_hi_user None fresh_world =
     Inr \<lparr>config_file =
            Some (JDict [(''1'', JDict [(''channel_id'', JInt 42),
                                        (''embed_data'', JDict [(''content'', JStr ''hi {user}'')]),
                                        (''role_id'', JNull)])]),
          trace = [SendMessage (Text ''Welcome message set to <#42>.'') False]\<rparr> \<and>
   welcome_command sample_library sample_interaction sample_channel ''{}'' (Some 3) fresh_world =
     Inr \<lparr>config_file = None, trace = [SendMessage (Text ''Invalid JSON.'') True]\<rparr>"
proof -
  have l: "json_loads sample_library ''{}'' = Some (JDict [])"
    by (simp add: sample_library_def sample_documents_def)
  have h2: "load_config (config_file fresh_world) = JDict []"
    by (simp add: fresh_world_def load_config_def)
  have h3: "''1'' = py_str_opt_int (guild_id sample_interaction)"
    by (simp add: sample_interaction_def str_of_guild_1)
  have h4: "map_of [] ''1'' = None \<or> (\<exists>st. map_of [] ''1'' = Some (JDict st))"
    by simp
  show ?thesis
    using welcome_command_persists[OF loads_hi_user h2 h3 h4, of sample_channel None]
      welcome_command_persists[OF l h2 h3 h4, of sample_channel "Some 3"]
    by (simp add: dict_get_def emit_def fresh_world_def guild_settings_def sample_channel_def)
qed

text \<open>
  C8 as stated fails: the object \<^verbatim>\<open>{"content": ""}\<close> contains the key \<^verbatim>\<open>content\<close>, and the
  command answers with the validation error and saves nothing.
\<close>

theorem welcome_command_counterexample:
  "json_loads sample_library doc_empty_content = Some (JDict [(''content'', JStr [])]) \<and>
   welcome_command sample_library sample_interaction sample_channel doc_empty_content None
     fresh_world =
     Inr \<lparr>config_file = None, trace = [SendMessage (Text ''Invalid JSON.'') True]\<rparr>"
  by (simp add: welcome_command_def loads_empty_content dict_get_def emit_def fresh_world_def)

subsection \<open>The member-join event\<close>

text \<open>
  C9. With the guild's welcome configuration \<^verbatim>\<open>channel_id = 42\<close>,
  \<^verbatim>\<open>embed_data = {"content": "hi {user}"}\<close>, \<^verbatim>\<open>role_id = null\<close>, a joining member whose
  mention token is \<^verbatim>\<open><@99>\<close> makes channel 42 receive the content \<^verbatim>\<open>hi <@99>\<close> with no
  embeds, and no role is assigned: that message is all that happens.
\<close>

theorem member_join_scenario:
  assumes "load_config (config_file w) = JDict cfg"
    and "map_of cfg (py_str_int (guild_ident (guild m))) =
           Some (JDict [(''channel_id'', JInt 42),
                        (''embed_data'', JDict [(''content'', JStr ''hi {user}'')]),
                        (''role_id'', JNull)])"
    and "mention m = ''<@99>''"
    and "get_channel (guild m) (JInt 42) = Some 42"
  shows "on_member_join lib m w =
           Inr (w\<lparr>trace := trace w @ [ChannelSend 42 (JStr ''hi <@99>'') []]\<rparr>)"
  using assms
  by (simp add: on_member_join_def apply_theme_def message_parts_def py_in_dict dict_get_def
      str_replace_def emit_def del: py_in.simps)

theorem member_join_scenario_witness:
  "on_member_join sample_library sample_member
     \<lparr>config_file =
        Some (JDict [(''7'', JDict [(''channel_id'', JInt 42),
                                    (''embed_data'', JDict [(''content'', JStr ''hi {user}'')]),
                                    (''role_id'', JNull)])]),
      trace = []\<rparr> =
   Inr \<lparr>config_file =
          Some (JDict [(''7'', JDict [(''channel_id'', JInt 42),
                                      (''embed_data'', JDict [(''content'', JStr ''hi {user}'')]),
                                      (''role_id'', JNull)])]),
        trace = [ChannelSend 42 (JStr ''hi <@99>'') []]\<rparr>"
  using member_join_scenario[of
      "\<lparr>config_file =
          Some (JDict [(''7'', JDict [(''channel_id'', JInt 42),
                                      (''embed_data'', JDict [(''content'', JStr ''hi {user}'')]),
                                      (''role_id'', JNull)])]),
        trace = []\<rparr>"
      "[(''7'', JDict [(''channel_id'', JInt 42),
                       (''embed_data'', JDict [(''content'', JStr ''hi {user}'')]),
                       (''role_id'', JNull)])]"
      sample_member sample_library]
  by (simp add: load_config_def sample_member_def sample_guild_def str_of_guild_7)

end
